theory Spec2Isabelle
  imports Main "HOL-Library.Char_ord" "HOL-Library.List_Lexorder"
begin

section \<open>Feature engineering pipeline (src/feature_engineering.py)\<close>

text \<open>
  The module is a linear job: load parameters, load two datasets, vectorise the text
  column, attach the labels, write two tables. It is modelled by explicit state passing
  over a \<open>world\<close> (file system, log, standard output). Every \<open>raise\<close> is the \<open>Inl\<close>
  branch of a sum. The calls into pandas, scikit-learn, PyYAML and \<open>os\<close> are the fields
  of a record \<open>lib\<close>; the functions of the module are defined for any such record.
\<close>

subsection \<open>Exceptions\<close>

text \<open>
  Only subclasses of \<open>Exception\<close> are modelled (every handler of the module is
  \<open>except Exception\<close> or narrower). An exception is its class, as far as the handlers
  tell classes apart, and its \<open>str\<close>.
\<close>

datatype exn_kind =
  FileNotFoundError | YAMLError | ParserError | KeyError | TypeError | ValueError | OtherError

datatype exn = Exn exn_kind string

fun kind_of :: "exn \<Rightarrow> exn_kind" where
  "kind_of (Exn k m) = k"

fun str_of :: "exn \<Rightarrow> string" where
  "str_of (Exn k m) = m"

subsection \<open>Parameter values\<close>

text \<open>What \<open>yaml.safe_load\<close> returns: \<open>None\<close>, a scalar, or a mapping.\<close>

datatype pyval = PyNone | PyInt int | PyStr string | PyDict "(string \<times> pyval) list"

text \<open>\<open>params[key]\<close> with a string key. The text of a \<open>KeyError\<close> is the key (its quotes left out).\<close>

fun py_getitem :: "pyval \<Rightarrow> string \<Rightarrow> exn + pyval" where
  "py_getitem (PyDict kvs) k =
     (case map_of kvs k of
        None \<Rightarrow> Inl (Exn KeyError k)
      | Some v \<Rightarrow> Inr v)"
| "py_getitem PyNone k = Inl (Exn TypeError ''NoneType object is not subscriptable'')"
| "py_getitem (PyInt n) k = Inl (Exn TypeError ''int object is not subscriptable'')"
| "py_getitem (PyStr s) k = Inl (Exn TypeError ''string indices must be integers'')"

subsection \<open>Tables\<close>

text \<open>
  A cell is missing (NaN), a string, or a number; the number type \<open>'w\<close> is left open
  (TF-IDF weights are floating point, and no property below depends on their values).
  A \<open>DataFrame\<close> is its number of rows and its columns in order.
\<close>

datatype 'w cell = Missing | Text string | Number 'w

record 'w dataframe =
  nrows :: nat
  columns :: "(string \<times> 'w cell list) list"

definition shape :: "'w dataframe \<Rightarrow> nat \<times> nat" where
  "shape df = (nrows df, length (columns df))"

text \<open>\<open>df[col].values\<close>: the cells of the column, or \<open>KeyError\<close>.\<close>

definition df_getitem :: "'w dataframe \<Rightarrow> string \<Rightarrow> exn + 'w cell list" where
  "df_getitem df col =
     (case map_of (columns df) col of
        None \<Rightarrow> Inl (Exn KeyError col)
      | Some cs \<Rightarrow> Inr cs)"

text \<open>\<open>df.fillna(v, inplace=True)\<close>: every missing cell becomes the string \<open>v\<close>.\<close>

fun fill_cell :: "string \<Rightarrow> 'w cell \<Rightarrow> 'w cell" where
  "fill_cell v Missing = Text v"
| "fill_cell v c = c"

definition fillna :: "string \<Rightarrow> 'w dataframe \<Rightarrow> 'w dataframe" where
  "fillna v df = df\<lparr>columns := map (\<lambda>(n, cs). (n, map (fill_cell v) cs)) (columns df)\<rparr>"

text \<open>
  \<open>pd.DataFrame(matrix, columns=names)\<close> on a two-dimensional array: one row per row of
  the array, one column per name; \<open>ValueError\<close> when the width of the array is not the
  number of names.
\<close>

definition DataFrame :: "'w list list \<Rightarrow> string list \<Rightarrow> exn + 'w dataframe" where
  "DataFrame m names =
     (if \<forall>r \<in> set m. length r = length names
      then Inr \<lparr>nrows = length m,
                columns = map (\<lambda>j. (names ! j, map (\<lambda>r. Number (r ! j)) m)) [0..<length names]\<rparr>
      else Inl (Exn ValueError ''Shape of passed values does not match the columns''))"

text \<open>
  \<open>df[name] = values\<close> with an array of values. A frame with an empty index first
  takes the index of the values (its columns are refilled with NaN); then the lengths
  must agree. An existing column of that name is overwritten in place, a new name is
  appended as the last column.
\<close>

definition ensure_valid_index :: "'w dataframe \<Rightarrow> 'w cell list \<Rightarrow> 'w dataframe" where
  "ensure_valid_index df vs =
     (if nrows df = 0 \<and> vs \<noteq> []
      then \<lparr>nrows = length vs,
            columns = map (\<lambda>(n, cs). (n, replicate (length vs) Missing)) (columns df)\<rparr>
      else df)"

definition set_column ::
  "string \<Rightarrow> 'w cell list \<Rightarrow> (string \<times> 'w cell list) list \<Rightarrow> (string \<times> 'w cell list) list" where
  "set_column name vs cols =
     (if name \<in> fst ` set cols
      then map (\<lambda>(n, cs). if n = name then (n, vs) else (n, cs)) cols
      else cols @ [(name, vs)])"

definition df_setitem :: "'w dataframe \<Rightarrow> string \<Rightarrow> 'w cell list \<Rightarrow> exn + 'w dataframe" where
  "df_setitem df name vs =
     (let df1 = ensure_valid_index df vs
      in if length vs \<noteq> nrows df1
         then Inl (Exn ValueError ''Length of values does not match length of index'')
         else Inr (df1\<lparr>columns := set_column name vs (columns df1)\<rparr>))"

subsection \<open>Log, output, world\<close>

datatype level = DEBUG | ERROR

datatype logarg = ArgStr string | ArgExn exn | ArgShape "nat \<times> nat"

type_synonym log_record = "level \<times> string \<times> logarg list"

record 'fs world =
  w_fs :: 'fs
  w_log :: "log_record list"
  w_out :: "string list"

definition logger :: "level \<Rightarrow> string \<Rightarrow> logarg list \<Rightarrow> 'fs world \<Rightarrow> 'fs world" where
  "logger lv fmt args w = w\<lparr>w_log := w_log w @ [(lv, fmt, args)]\<rparr>"

definition print :: "string \<Rightarrow> 'fs world \<Rightarrow> 'fs world" where
  "print s w = w\<lparr>w_out := w_out w @ [s]\<rparr>"

subsection \<open>The library calls\<close>

text \<open>
  \<open>open_read\<close> is \<open>open(path, 'r')\<close> and the reading of the stream, \<open>makedirs\<close> is
  \<open>os.makedirs(p, exist_ok=True)\<close>, \<open>to_csv\<close> is \<open>df.to_csv(path, index=False)\<close>. The
  vectorizer object has type \<open>'v\<close>; its methods return the object as they leave it.
\<close>

record ('fs, 'w, 'v) lib =
  open_read :: "string \<Rightarrow> 'fs \<Rightarrow> exn + string"
  yaml_safe_load :: "string \<Rightarrow> exn + pyval"
  read_csv :: "string \<Rightarrow> 'fs \<Rightarrow> exn + 'w dataframe"
  makedirs :: "string \<Rightarrow> 'fs \<Rightarrow> exn + 'fs"
  to_csv :: "'w dataframe \<Rightarrow> string \<Rightarrow> 'fs \<Rightarrow> exn + 'fs"
  TfidfVectorizer :: "pyval \<Rightarrow> exn + 'v"
  fit_transform :: "'v \<Rightarrow> 'w cell list \<Rightarrow> exn + 'v \<times> 'w list list"
  transform :: "'v \<Rightarrow> 'w cell list \<Rightarrow> exn + 'v \<times> 'w list list"
  get_feature_names_out :: "'v \<Rightarrow> exn + string list"

text \<open>\<open>os.path.dirname\<close> and \<open>os.path.join\<close> (two arguments) of \<open>posixpath\<close>.\<close>

definition dirname :: "string \<Rightarrow> string" where
  "dirname p =
     (let head = rev (dropWhile (\<lambda>c. c \<noteq> CHR ''/'') (rev p))
      in if head \<noteq> [] \<and> (\<exists>c \<in> set head. c \<noteq> CHR ''/'')
         then rev (dropWhile (\<lambda>c. c = CHR ''/'') (rev head))
         else head)"

definition path_join :: "string \<Rightarrow> string \<Rightarrow> string" where
  "path_join a b =
     (if b \<noteq> [] \<and> hd b = CHR ''/'' then b
      else if a = [] \<or> last a = CHR ''/'' then a @ b
      else a @ ''/'' @ b)"

subsection \<open>load_data\<close>

definition load_data ::
  "('fs, 'w, 'v) lib \<Rightarrow> string \<Rightarrow> 'fs world \<Rightarrow> (exn + 'w dataframe) \<times> 'fs world" where
  "load_data L file_path w =
     (case read_csv L file_path (w_fs w) of
        Inr df \<Rightarrow>
          (Inr (fillna [] df),
           logger DEBUG ''Data loaded and NaNs filled from %s'' [ArgStr file_path] w)
      | Inl e \<Rightarrow>
          if kind_of e = ParserError
          then (Inl e, logger ERROR ''Failed to parse the CSV file: %s'' [ArgExn e] w)
          else (Inl e,
                logger ERROR ''Unexpected error occurred while loading the data: %s'' [ArgExn e] w))"

subsection \<open>load_params\<close>

text \<open>
  The body of the \<open>try\<close>: open the file, parse it. The third handler has no \<open>raise\<close>:
  the function falls off its end and returns \<open>None\<close>.
\<close>

definition load_params_body :: "('fs, 'w, 'v) lib \<Rightarrow> string \<Rightarrow> 'fs \<Rightarrow> exn + pyval" where
  "load_params_body L params_path s =
     (case open_read L params_path s of
        Inl e \<Rightarrow> Inl e
      | Inr text \<Rightarrow> yaml_safe_load L text)"

definition load_params ::
  "('fs, 'w, 'v) lib \<Rightarrow> string \<Rightarrow> 'fs world \<Rightarrow> (exn + pyval) \<times> 'fs world" where
  "load_params L params_path w =
     (case load_params_body L params_path (w_fs w) of
        Inr params \<Rightarrow>
          (Inr params, logger DEBUG ''Parameters retrived from %s'' [ArgStr params_path] w)
      | Inl e \<Rightarrow>
          if kind_of e = FileNotFoundError
          then (Inl e, logger ERROR ''File not found : %s'' [ArgStr params_path] w)
          else if kind_of e = YAMLError
          then (Inl e, logger ERROR ''Yaml error :%s'' [ArgExn e] w)
          else (Inr PyNone, logger ERROR ''Unexpected error : %s'' [ArgExn e] w))"

subsection \<open>apply_tfidf\<close>

text \<open>
  Sequencing inside a \<open>try\<close>: the first statement that raises ends the body with its
  exception; otherwise the next statement runs with the value bound.
\<close>

definition bind_exn :: "exn + 'a \<Rightarrow> ('a \<Rightarrow> exn + 'b) \<Rightarrow> exn + 'b" where
  "bind_exn m f = (case m of Inl e \<Rightarrow> Inl e | Inr x \<Rightarrow> f x)"

definition apply_tfidf_body ::
  "('fs, 'w, 'v) lib \<Rightarrow> 'w dataframe \<Rightarrow> 'w dataframe \<Rightarrow> pyval \<Rightarrow> string \<Rightarrow> string \<Rightarrow>
     exn + 'w dataframe \<times> 'w dataframe" where
  "apply_tfidf_body L train_data test_data max_features text_col target_col =
     bind_exn (TfidfVectorizer L max_features) (\<lambda>vectorizer.
     bind_exn (df_getitem train_data text_col) (\<lambda>X_train.
     bind_exn (df_getitem train_data target_col) (\<lambda>y_train.
     bind_exn (df_getitem test_data text_col) (\<lambda>X_test.
     bind_exn (df_getitem test_data target_col) (\<lambda>y_test.
     bind_exn (fit_transform L vectorizer X_train) (\<lambda>(v1, X_train_tfidf).
     bind_exn (transform L v1 X_test) (\<lambda>(v2, X_test_tfidf).
     bind_exn (get_feature_names_out L v2) (\<lambda>feature_names.
     bind_exn (DataFrame X_train_tfidf feature_names) (\<lambda>train_df0.
     bind_exn (df_setitem train_df0 ''label'' y_train) (\<lambda>train_df.
     bind_exn (DataFrame X_test_tfidf feature_names) (\<lambda>test_df0.
     bind_exn (df_setitem test_df0 ''label'' y_test) (\<lambda>test_df.
     Inr (train_df, test_df)))))))))))))"

definition apply_tfidf ::
  "('fs, 'w, 'v) lib \<Rightarrow> 'w dataframe \<Rightarrow> 'w dataframe \<Rightarrow> pyval \<Rightarrow> string \<Rightarrow> string \<Rightarrow>
     'fs world \<Rightarrow> (exn + 'w dataframe \<times> 'w dataframe) \<times> 'fs world" where
  "apply_tfidf L train_data test_data max_features text_col target_col w =
     (case apply_tfidf_body L train_data test_data max_features text_col target_col of
        Inr (train_df, test_df) \<Rightarrow>
          (Inr (train_df, test_df),
           logger DEBUG ''TF-IDF applied. Train shape: %s, Test shape: %s''
             [ArgShape (shape train_df), ArgShape (shape test_df)] w)
      | Inl e \<Rightarrow>
          (Inl e, logger ERROR ''Error during TF-IDF transformation: %s'' [ArgExn e] w))"

subsection \<open>save_data\<close>

text \<open>
  A failure of \<open>to_csv\<close> after \<open>makedirs\<close> succeeded leaves the directories created: the
  world after the failure holds the file system as \<open>makedirs\<close> left it.
\<close>

definition save_data ::
  "('fs, 'w, 'v) lib \<Rightarrow> 'w dataframe \<Rightarrow> string \<Rightarrow> 'fs world \<Rightarrow> (exn + unit) \<times> 'fs world" where
  "save_data L df file_path w =
     (case makedirs L (dirname file_path) (w_fs w) of
        Inl e \<Rightarrow>
          (Inl e, logger ERROR ''Unexpected error occurred while saving the data: %s'' [ArgExn e] w)
      | Inr s1 \<Rightarrow>
          (case to_csv L df file_path s1 of
             Inl e \<Rightarrow>
               (Inl e,
                logger ERROR ''Unexpected error occurred while saving the data: %s'' [ArgExn e]
                  (w\<lparr>w_fs := s1\<rparr>))
           | Inr s2 \<Rightarrow>
               (Inr (), logger DEBUG ''Data saved to %s'' [ArgStr file_path] (w\<lparr>w_fs := s2\<rparr>))))"

subsection \<open>main\<close>

text \<open>The body of the \<open>try\<close> of \<open>main\<close>, with the default column names of \<open>apply_tfidf\<close>.\<close>

text \<open>
  Sequencing of the stateful steps: a step that raises ends the body with its exception
  and the world as that step left it.
\<close>

definition bind_st ::
  "(exn + 'a) \<times> 's \<Rightarrow> ('a \<Rightarrow> 's \<Rightarrow> (exn + 'b) \<times> 's) \<Rightarrow> (exn + 'b) \<times> 's" where
  "bind_st m f = (case fst m of Inl e \<Rightarrow> (Inl e, snd m) | Inr x \<Rightarrow> f x (snd m))"

definition main_body :: "('fs, 'w, 'v) lib \<Rightarrow> 'fs world \<Rightarrow> (exn + unit) \<times> 'fs world" where
  "main_body L w0 =
     bind_st (load_params L ''params.yaml'' w0) (\<lambda>params w1.
     bind_st (py_getitem params ''feature_engineering'', w1) (\<lambda>section w1.
     bind_st (py_getitem section ''max_features'', w1) (\<lambda>max_features w1.
     bind_st (load_data L ''./data/interim/train_processed.csv'' w1) (\<lambda>train_data w2.
     bind_st (load_data L ''./data/interim/test_processed.csv'' w2) (\<lambda>test_data w3.
     bind_st (apply_tfidf L train_data test_data max_features ''text'' ''target'' w3)
       (\<lambda>(train_df, test_df) w4.
     bind_st (save_data L train_df (path_join ''./data/processed'' ''train_tfidf.csv'') w4) (\<lambda>u w5.
     bind_st (save_data L test_df (path_join ''./data/processed'' ''test_tfidf.csv'') w5) (\<lambda>u w6.
     (Inr (), logger DEBUG ''Feature engineering process completed successfully.'' [] w6)))))))))"

text \<open>The handler of \<open>main\<close>: one error record, one printed line, nothing raised.\<close>

definition main_handler :: "exn \<Rightarrow> 'fs world \<Rightarrow> 'fs world" where
  "main_handler e w =
     print (''Error: '' @ str_of e)
       (logger ERROR ''Failed to complete the feature engineering process: %s'' [ArgExn e] w)"

definition main :: "('fs, 'w, 'v) lib \<Rightarrow> 'fs world \<Rightarrow> 'fs world" where
  "main L w0 =
     (case main_body L w0 of
        (Inr u, w) \<Rightarrow> w
      | (Inl e, w) \<Rightarrow> main_handler e w)"

subsection \<open>apply_tfidf in an ambient state\<close>

text \<open>
  In \<open>apply_tfidf\<close> above a call of the vectorizer library is a function of its
  arguments, so two runs on the same arguments cannot differ. Whether the stage is
  deterministic is asked of the reading below, where every call of the vectorizer library
  also reads and changes an ambient state \<open>'h\<close>: whatever a call can reach beyond its
  arguments (module globals, caches, the hash seed, a random generator). The vectorizer
  object stays an explicit value: the stage constructs it on every call and holds it in a
  local variable. The statements are those of \<open>apply_tfidf\<close>, in the same order.
\<close>

record ('h, 'w, 'v) ambient_lib =
  TfidfVectorizer_st :: "pyval \<Rightarrow> 'h \<Rightarrow> (exn + 'v) \<times> 'h"
  fit_transform_st :: "'v \<Rightarrow> 'w cell list \<Rightarrow> 'h \<Rightarrow> (exn + 'v \<times> 'w list list) \<times> 'h"
  transform_st :: "'v \<Rightarrow> 'w cell list \<Rightarrow> 'h \<Rightarrow> (exn + 'v \<times> 'w list list) \<times> 'h"
  get_feature_names_out_st :: "'v \<Rightarrow> 'h \<Rightarrow> (exn + string list) \<times> 'h"

definition apply_tfidf_st_body ::
  "('h, 'w, 'v) ambient_lib \<Rightarrow> 'w dataframe \<Rightarrow> 'w dataframe \<Rightarrow> pyval \<Rightarrow> string \<Rightarrow> string \<Rightarrow>
     'h \<Rightarrow> (exn + 'w dataframe \<times> 'w dataframe) \<times> 'h" where
  "apply_tfidf_st_body L train_data test_data max_features text_col target_col h0 =
     bind_st (TfidfVectorizer_st L max_features h0) (\<lambda>vectorizer h.
     bind_st (df_getitem train_data text_col, h) (\<lambda>X_train h.
     bind_st (df_getitem train_data target_col, h) (\<lambda>y_train h.
     bind_st (df_getitem test_data text_col, h) (\<lambda>X_test h.
     bind_st (df_getitem test_data target_col, h) (\<lambda>y_test h.
     bind_st (fit_transform_st L vectorizer X_train h) (\<lambda>(v1, X_train_tfidf) h.
     bind_st (transform_st L v1 X_test h) (\<lambda>(v2, X_test_tfidf) h.
     bind_st (get_feature_names_out_st L v2 h) (\<lambda>feature_names h.
     bind_st (DataFrame X_train_tfidf feature_names, h) (\<lambda>train_df0 h.
     bind_st (df_setitem train_df0 ''label'' y_train, h) (\<lambda>train_df h.
     bind_st (DataFrame X_test_tfidf feature_names, h) (\<lambda>test_df0 h.
     bind_st (df_setitem test_df0 ''label'' y_test, h) (\<lambda>test_df h.
     (Inr (train_df, test_df), h)))))))))))))"

definition apply_tfidf_st ::
  "('h, 'w, 'v) ambient_lib \<Rightarrow> 'w dataframe \<Rightarrow> 'w dataframe \<Rightarrow> pyval \<Rightarrow> string \<Rightarrow> string \<Rightarrow>
     'h \<times> 'fs world \<Rightarrow> (exn + 'w dataframe \<times> 'w dataframe) \<times> 'h \<times> 'fs world" where
  "apply_tfidf_st L train_data test_data max_features text_col target_col s =
     (case apply_tfidf_st_body L train_data test_data max_features text_col target_col (fst s) of
        (Inr (train_df, test_df), h) \<Rightarrow>
          (Inr (train_df, test_df), h,
           logger DEBUG ''TF-IDF applied. Train shape: %s, Test shape: %s''
             [ArgShape (shape train_df), ArgShape (shape test_df)] (snd s))
      | (Inl e, h) \<Rightarrow>
          (Inl e, h, logger ERROR ''Error during TF-IDF transformation: %s'' [ArgExn e] (snd s)))"

text \<open>A library whose calls neither read nor change the ambient state.\<close>

definition pure_lib :: "('fs, 'w, 'v) lib \<Rightarrow> ('h, 'w, 'v) ambient_lib" where
  "pure_lib L =
     \<lparr>TfidfVectorizer_st = (\<lambda>mf h. (TfidfVectorizer L mf, h)),
      fit_transform_st = (\<lambda>v X h. (fit_transform L v X, h)),
      transform_st = (\<lambda>v X h. (transform L v X, h)),
      get_feature_names_out_st = (\<lambda>v h. (get_feature_names_out L v, h))\<rparr>"

section \<open>A reference library\<close>

text \<open>
  pandas, scikit-learn and \<open>os\<close> are not part of the repository. Where a property
  depends on what they compute, it is stated for the reference library below, which
  follows the specification's description of them. The module's own functions are the
  ones defined above, applied to this library.
\<close>

subsection \<open>The vectorizer\<close>

text \<open>
  Modelled from the spec: the TF-IDF vectorizer (scikit-learn, absent from the sources).
  ``Fit a term-frequency-inverse-document-frequency model on the training text column
  only, retaining at most the configured number of highest-scoring terms as the
  vocabulary''; a transform is over ``the same fitted vocabulary (terms absent from the
  vocabulary contribute zero weight; no re-fitting)''; an empty vocabulary is a failure.
  A term is a lower-cased maximal run of two or more ASCII letters, digits or
  underscores; terms are ranked by their count over the corpus, equal counts in
  alphabetical order; the vocabulary is kept in alphabetical order. The weight of a cell
  is left to a parameter \<open>weigh\<close> of the number of training documents, the row's pairs
  (document frequency, count in this document) and the pair of the cell.
\<close>

definition upper_letters :: string where
  "upper_letters = ''ABCDEFGHIJKLMNOPQRSTUVWXYZ''"

definition lower_letters :: string where
  "lower_letters = ''abcdefghijklmnopqrstuvwxyz''"

definition is_word_char :: "char \<Rightarrow> bool" where
  "is_word_char c = (c \<in> set (lower_letters @ upper_letters @ ''0123456789_''))"

definition lower_char :: "char \<Rightarrow> char" where
  "lower_char c = (case map_of (zip upper_letters lower_letters) c of Some d \<Rightarrow> d | None \<Rightarrow> c)"

fun word_runs :: "string \<Rightarrow> string \<Rightarrow> string list" where
  "word_runs acc [] = (if acc = [] then [] else [rev acc])"
| "word_runs acc (c # cs) =
     (if is_word_char c then word_runs (c # acc) cs
      else if acc = [] then word_runs [] cs
      else rev acc # word_runs [] cs)"

definition analyze :: "string \<Rightarrow> string list" where
  "analyze s = filter (\<lambda>t. 2 \<le> length t) (word_runs [] (map lower_char s))"

text \<open>The documents of a column: every cell must be a string.\<close>

fun documents :: "'w cell list \<Rightarrow> exn + string list" where
  "documents [] = Inr []"
| "documents (Text s # cs) = bind_exn (documents cs) (\<lambda>ds. Inr (s # ds))"
| "documents (Missing # cs) = Inl (Exn ValueError ''np.nan is an invalid document'')"
| "documents (Number x # cs) = Inl (Exn OtherError ''object has no attribute lower'')"

record vectorizer =
  v_max_features :: pyval
  v_vocabulary :: "string list option"
  v_doc_freq :: "nat list"
  v_n_docs :: nat

definition ref_TfidfVectorizer :: "pyval \<Rightarrow> exn + vectorizer" where
  "ref_TfidfVectorizer mf =
     Inr \<lparr>v_max_features = mf, v_vocabulary = None, v_doc_freq = [], v_n_docs = 0\<rparr>"

fun valid_max_features :: "pyval \<Rightarrow> bool" where
  "valid_max_features PyNone = True"
| "valid_max_features (PyInt n) = (1 \<le> n)"
| "valid_max_features v = False"

definition limit_features :: "pyval \<Rightarrow> string list \<Rightarrow> string list \<Rightarrow> string list" where
  "limit_features mf toks terms =
     (case mf of
        PyInt n \<Rightarrow> sort (take (nat n) (sort_key (\<lambda>t. - int (count_list toks t)) terms))
      | _ \<Rightarrow> terms)"

definition fit_vocabulary :: "pyval \<Rightarrow> string list \<Rightarrow> exn + string list" where
  "fit_vocabulary mf docs =
     (let toks = concat (map analyze docs); terms = sort (remdups toks)
      in if terms = []
         then Inl (Exn ValueError ''empty vocabulary; perhaps the documents only contain stop words'')
         else Inr (limit_features mf toks terms))"

definition weigh_doc ::
  "(nat \<Rightarrow> (nat \<times> nat) list \<Rightarrow> nat \<times> nat \<Rightarrow> 'w) \<Rightarrow> vectorizer \<Rightarrow> string list \<Rightarrow> string \<Rightarrow> 'w list" where
  "weigh_doc weigh v vocab doc =
     (let toks = analyze doc;
          pairs = map (\<lambda>(t, df). (df, count_list toks t)) (zip vocab (v_doc_freq v))
      in map (weigh (v_n_docs v) pairs) pairs)"

definition ref_fit_transform ::
  "(nat \<Rightarrow> (nat \<times> nat) list \<Rightarrow> nat \<times> nat \<Rightarrow> 'w) \<Rightarrow> vectorizer \<Rightarrow> 'w cell list \<Rightarrow>
     exn + vectorizer \<times> 'w list list" where
  "ref_fit_transform weigh v cells =
     (if \<not> valid_max_features (v_max_features v)
      then Inl (Exn ValueError ''max_features must be a positive integer or None'')
      else
        bind_exn (documents cells) (\<lambda>docs.
        bind_exn (fit_vocabulary (v_max_features v) docs) (\<lambda>vocab.
        let v1 = v\<lparr>v_vocabulary := Some vocab,
                   v_doc_freq := map (\<lambda>t. length (filter (\<lambda>d. t \<in> set (analyze d)) docs)) vocab,
                   v_n_docs := length docs\<rparr>
        in Inr (v1, map (weigh_doc weigh v1 vocab) docs))))"

definition ref_transform ::
  "(nat \<Rightarrow> (nat \<times> nat) list \<Rightarrow> nat \<times> nat \<Rightarrow> 'w) \<Rightarrow> vectorizer \<Rightarrow> 'w cell list \<Rightarrow>
     exn + vectorizer \<times> 'w list list" where
  "ref_transform weigh v cells =
     (case v_vocabulary v of
        None \<Rightarrow> Inl (Exn OtherError ''Vocabulary not fitted or provided'')
      | Some vocab \<Rightarrow>
          bind_exn (documents cells) (\<lambda>docs. Inr (v, map (weigh_doc weigh v vocab) docs)))"

definition ref_get_feature_names_out :: "vectorizer \<Rightarrow> exn + string list" where
  "ref_get_feature_names_out v =
     (case v_vocabulary v of
        None \<Rightarrow> Inl (Exn OtherError ''Vocabulary not fitted or provided'')
      | Some vocab \<Rightarrow> Inr vocab)"

subsection \<open>Delimited files and directories\<close>

text \<open>
  Modelled from the spec: the delimited-file reader and writer (pandas) and the directory
  creation and file opening (\<open>os\<close>), absent from the sources. A delimited file is kept as its records,
  the header first, each record a list of fields. The writer is to ``write rows and
  header to a delimited file, omitting any row-index column''; the reader is to ``parse
  rows/columns'', a missing value being an empty field, and to fail ``with a malformed
  file condition on structural parse errors''. Numbers are written through a formatting
  parameter \<open>fmt\<close> and read back as their text.
\<close>

record filesystem =
  fs_dirs :: "string set"
  fs_files :: "string \<rightharpoonup> string list list"
  fs_texts :: "string \<rightharpoonup> string"

text \<open>
  \<open>open(path, 'r')\<close> and the reading of a text file (kept in \<open>fs_texts\<close>): a directory
  cannot be opened, a path that is not there is not found.
\<close>

definition ref_open_read :: "string \<Rightarrow> filesystem \<Rightarrow> exn + string" where
  "ref_open_read p s =
     (if p \<in> fs_dirs s then Inl (Exn OtherError ''Is a directory'')
      else case fs_texts s p of
             None \<Rightarrow> Inl (Exn FileNotFoundError ''No such file or directory'')
           | Some t \<Rightarrow> Inr t)"

text \<open>A path and its ancestors: the non-empty prefixes that end before a separator.\<close>

definition ancestors :: "string \<Rightarrow> string list" where
  "ancestors p =
     filter (\<lambda>q. q \<noteq> [])
       (map (\<lambda>i. take i p) (filter (\<lambda>i. i = length p \<or> p ! i = CHR ''/'') [0..<Suc (length p)]))"

definition ref_makedirs :: "string \<Rightarrow> filesystem \<Rightarrow> exn + filesystem" where
  "ref_makedirs p s =
     (if p = [] then Inl (Exn FileNotFoundError ''No such file or directory'')
      else if \<exists>q \<in> set (ancestors p). q \<in> dom (fs_files s)
      then Inl (Exn OtherError ''File exists'')
      else Inr (s\<lparr>fs_dirs := fs_dirs s \<union> set (ancestors p)\<rparr>))"

fun cell_text :: "('w \<Rightarrow> string) \<Rightarrow> 'w cell \<Rightarrow> string" where
  "cell_text fmt Missing = []"
| "cell_text fmt (Text s) = s"
| "cell_text fmt (Number x) = fmt x"

definition csv_records :: "('w \<Rightarrow> string) \<Rightarrow> 'w dataframe \<Rightarrow> string list list" where
  "csv_records fmt df =
     map fst (columns df) #
     map (\<lambda>i. map (\<lambda>(n, cs). cell_text fmt (cs ! i)) (columns df)) [0..<nrows df]"

definition ref_to_csv ::
  "('w \<Rightarrow> string) \<Rightarrow> 'w dataframe \<Rightarrow> string \<Rightarrow> filesystem \<Rightarrow> exn + filesystem" where
  "ref_to_csv fmt df path s =
     (if dirname path \<noteq> [] \<and> dirname path \<notin> fs_dirs s
      then Inl (Exn OtherError ''Cannot save file into a non-existent directory'')
      else if path \<in> fs_dirs s
      then Inl (Exn OtherError ''Is a directory'')
      else Inr (s\<lparr>fs_files := (fs_files s)(path \<mapsto> csv_records fmt df)\<rparr>))"

definition field :: "string list \<Rightarrow> nat \<Rightarrow> 'w cell" where
  "field l j = (if j < length l \<and> l ! j \<noteq> [] then Text (l ! j) else Missing)"

definition ref_read_csv :: "string \<Rightarrow> filesystem \<Rightarrow> exn + 'w dataframe" where
  "ref_read_csv path s =
     (case fs_files s path of
        None \<Rightarrow> Inl (Exn FileNotFoundError path)
      | Some [] \<Rightarrow> Inl (Exn OtherError ''No columns to parse from file'')
      | Some (header # lines) \<Rightarrow>
          if header = [] then Inl (Exn OtherError ''No columns to parse from file'')
          else if \<exists>l \<in> set lines. length header < length l
          then Inl (Exn ParserError ''Error tokenizing data'')
          else Inr \<lparr>nrows = length lines,
                    columns = map (\<lambda>j. (header ! j, map (\<lambda>l. field l j) lines)) [0..<length header]\<rparr>)"

definition ref_lib ::
  "(string \<Rightarrow> exn + pyval) \<Rightarrow>
   (nat \<Rightarrow> (nat \<times> nat) list \<Rightarrow> nat \<times> nat \<Rightarrow> 'w) \<Rightarrow> ('w \<Rightarrow> string) \<Rightarrow>
   (filesystem, 'w, vectorizer) lib" where
  "ref_lib yaml weigh fmt =
     \<lparr>open_read = ref_open_read, yaml_safe_load = yaml,
      read_csv = ref_read_csv, makedirs = ref_makedirs, to_csv = ref_to_csv fmt,
      TfidfVectorizer = ref_TfidfVectorizer,
      fit_transform = ref_fit_transform weigh, transform = ref_transform weigh,
      get_feature_names_out = ref_get_feature_names_out\<rparr>"

section \<open>Example inputs\<close>

text \<open>
  A small instance of the reference library and of its inputs, for evaluating the
  definitions: numbers are naturals printed in decimal, the weight of a cell is the count
  of the term in the document, and the only text the parser accepts is the one parameter
  file below.
\<close>

fun decimal :: "nat \<Rightarrow> string" where
  "decimal n =
     (if n < 10 then [''0123456789'' ! n]
      else decimal (n div 10) @ [''0123456789'' ! (n mod 10)])"

declare decimal.simps [simp del]

definition yaml_example :: "string \<Rightarrow> exn + pyval" where
  "yaml_example t =
     (if t = ''feature_engineering: {max_features: 3}''
      then Inr (PyDict [(''feature_engineering'', PyDict [(''max_features'', PyInt 3)])])
      else Inl (Exn YAMLError ''mapping values are not allowed here''))"

definition count_weigh :: "nat \<Rightarrow> (nat \<times> nat) list \<Rightarrow> nat \<times> nat \<Rightarrow> nat" where
  "count_weigh n pairs p = snd p"

definition example_lib :: "(filesystem, nat, vectorizer) lib" where
  "example_lib = ref_lib yaml_example count_weigh decimal"

definition world_of :: "filesystem \<Rightarrow> filesystem world" where
  "world_of s = \<lparr>w_fs = s, w_log = [], w_out = []\<rparr>"

definition fs_empty :: filesystem where
  "fs_empty = \<lparr>fs_dirs = {}, fs_files = Map.empty, fs_texts = Map.empty\<rparr>"

definition fs_example :: filesystem where
  "fs_example =
     \<lparr>fs_dirs = {''.'', ''./data'', ''./data/interim''},
      fs_files = [''./data/interim/train_processed.csv'' \<mapsto>
                    [[''text'', ''target''], [''cat sat'', ''0''], [''dog ran fast'', ''1''],
                     [[], ''1'']],
                  ''./data/interim/test_processed.csv'' \<mapsto>
                    [[''text'', ''target''], [''cat ran'', ''1'']]],
      fs_texts = [''params.yaml'' \<mapsto> ''feature_engineering: {max_features: 3}'']\<rparr>"

definition train_example :: "nat dataframe" where
  "train_example =
     \<lparr>nrows = 2,
      columns = [(''text'', [Text ''cat sat'', Text ''dog ran fast'']),
                 (''target'', [Number 0, Number 1])]\<rparr>"

definition test_example :: "nat dataframe" where
  "test_example =
     \<lparr>nrows = 1, columns = [(''text'', [Text ''cat ran'']), (''target'', [Number 1])]\<rparr>"

definition train_label_example :: "nat dataframe" where
  "train_label_example =
     \<lparr>nrows = 2,
      columns = [(''text'', [Text ''Label me'', Text ''no label'']),
                 (''target'', [Number 0, Number 1])]\<rparr>"

definition train_empty_example :: "nat dataframe" where
  "train_empty_example =
     \<lparr>nrows = 2, columns = [(''text'', [Text [], Text []]), (''target'', [Number 0, Number 1])]\<rparr>"


definition seeded_lib :: "(nat, nat, vectorizer) ambient_lib" where
  "seeded_lib =
     \<lparr>TfidfVectorizer_st = (\<lambda>mf h. (TfidfVectorizer example_lib mf, Suc h)),
      fit_transform_st = (\<lambda>v X h. (fit_transform example_lib v X, Suc h)),
      transform_st = (\<lambda>v X h. (transform example_lib v X, Suc h)),
      get_feature_names_out_st = (\<lambda>v h.
        (case get_feature_names_out example_lib v of
           Inl e \<Rightarrow> Inl e
         | Inr names \<Rightarrow> Inr (if h < 4 then names else rev names),
         Suc h))\<rparr>"

section \<open>Properties\<close>

subsection \<open>Sequencing and column assignment\<close>

lemma bind_exn_simps [simp]:
  "bind_exn (Inl e) f = Inl e"
  "bind_exn (Inr x) f = f x"
  by (simp_all add: bind_exn_def)

lemma bind_exn_Inr_iff: "bind_exn m f = Inr y \<longleftrightarrow> (\<exists>x. m = Inr x \<and> f x = Inr y)"
  by (cases m) simp_all

lemma bind_exn_InrE:
  assumes "bind_exn m f = Inr y"
  obtains x where "m = Inr x" and "f x = Inr y"
  using assms by (cases m) simp_all

lemma apply_tfidf_body_InrD:
  assumes "apply_tfidf_body L train test mf tc yc = Inr (a, b)"
  shows "\<exists>vec X_train y_train X_test y_test v1 M1 v2 M2 names d1 d2.
      TfidfVectorizer L mf = Inr vec \<and>
      df_getitem train tc = Inr X_train \<and> df_getitem train yc = Inr y_train \<and>
      df_getitem test tc = Inr X_test \<and> df_getitem test yc = Inr y_test \<and>
      fit_transform L vec X_train = Inr (v1, M1) \<and>
      transform L v1 X_test = Inr (v2, M2) \<and>
      get_feature_names_out L v2 = Inr names \<and>
      DataFrame M1 names = Inr d1 \<and> df_setitem d1 ''label'' y_train = Inr a \<and>
      DataFrame M2 names = Inr d2 \<and> df_setitem d2 ''label'' y_test = Inr b"
  using assms unfolding apply_tfidf_body_def
  by (auto elim!: bind_exn_InrE)

lemma set_column_names:
  "map fst (set_column name vs cols) =
     (if name \<in> fst ` set cols then map fst cols else map fst cols @ [name])"
  by (induction cols) (auto simp: set_column_def)

lemma set_column_lookup: "map_of (set_column name vs cols) name = Some vs"
proof (cases "name \<in> fst ` set cols")
  case True
  then have "map_of (map (\<lambda>(n, cs). if n = name then (n, vs) else (n, cs)) cols) name = Some vs"
    by (induction cols) auto
  with True show ?thesis by (simp add: set_column_def)
next
  case False
  then have "map_of (cols @ [(name, vs)]) name = Some vs"
    by (induction cols) auto
  with False show ?thesis by (simp add: set_column_def)
qed

lemma set_column_all:
  "(n, cs) \<in> set (set_column name vs cols) \<Longrightarrow> n = name \<Longrightarrow> cs = vs"
  by (force simp: set_column_def split: if_splits)

lemma ensure_valid_index_names:
  "map fst (columns (ensure_valid_index df vs)) = map fst (columns df)"
  by (simp add: ensure_valid_index_def comp_def case_prod_unfold)

lemma df_setitem_Inr:
  "df_setitem df name vs = Inr df' \<Longrightarrow>
   df' = (ensure_valid_index df vs)\<lparr>columns := set_column name vs (columns (ensure_valid_index df vs))\<rparr> \<and>
   nrows (ensure_valid_index df vs) = length vs"
  by (auto simp: df_setitem_def Let_def split: if_splits)

lemma df_setitem_getitem:
  "df_setitem df name vs = Inr df' \<Longrightarrow> df_getitem df' name = Inr vs"
  by (auto dest!: df_setitem_Inr simp: df_getitem_def set_column_lookup)

lemma df_setitem_nrows:
  "df_setitem df name vs = Inr df' \<Longrightarrow> nrows df' = length vs"
  by (auto dest!: df_setitem_Inr)

lemma df_setitem_names:
  "df_setitem df name vs = Inr df' \<Longrightarrow>
   map fst (columns df') =
     (if name \<in> set (map fst (columns df)) then map fst (columns df)
      else map fst (columns df) @ [name])"
proof -
  assume "df_setitem df name vs = Inr df'"
  then have *: "columns df' = set_column name vs (columns (ensure_valid_index df vs))"
    by (auto dest!: df_setitem_Inr)
  have "fst ` set (columns (ensure_valid_index df vs)) = set (map fst (columns df))"
    using ensure_valid_index_names [of df vs] by (metis set_map)
  then show ?thesis
    unfolding * set_column_names ensure_valid_index_names by simp
qed

lemma DataFrame_names:
  "DataFrame m names = Inr df \<Longrightarrow> map fst (columns df) = names"
  by (auto simp: DataFrame_def comp_def map_nth split: if_splits)

lemma DataFrame_nrows:
  "DataFrame m names = Inr df \<Longrightarrow> nrows df = length m"
  by (auto simp: DataFrame_def split: if_splits)

lemma df_setitem_columns:
  "df_setitem df name vs = Inr df' \<Longrightarrow> (n, cs) \<in> set (columns df') \<Longrightarrow> n = name \<Longrightarrow> cs = vs"
  by (auto dest!: df_setitem_Inr dest: set_column_all)

subsection \<open>The vectorizer stage\<close>

lemma apply_tfidf_InrD:
  assumes "apply_tfidf L train test mf tc yc w = (Inr r, w')"
  shows "apply_tfidf_body L train test mf tc yc = Inr r"
  using assms by (auto simp: apply_tfidf_def split: sum.splits prod.splits)

lemma apply_tfidf_example:
  "apply_tfidf_body example_lib train_example test_example (PyInt 3) ''text'' ''target'' =
     Inr (\<lparr>nrows = 2,
            columns = [(''cat'', [Number 1, Number 0]), (''dog'', [Number 0, Number 1]),
                       (''fast'', [Number 0, Number 1]), (''label'', [Number 0, Number 1])]\<rparr>,
          \<lparr>nrows = 1,
            columns = [(''cat'', [Number 1]), (''dog'', [Number 0]), (''fast'', [Number 0]),
                       (''label'', [Number 1])]\<rparr>)"
  by code_simp

lemma apply_tfidf_label_example:
  "apply_tfidf_body example_lib train_label_example test_example (PyInt 3) ''text'' ''target'' =
     Inr (\<lparr>nrows = 2,
            columns = [(''label'', [Number 0, Number 1]), (''me'', [Number 1, Number 0]),
                       (''no'', [Number 0, Number 1])]\<rparr>,
          \<lparr>nrows = 1,
            columns = [(''label'', [Number 1]), (''me'', [Number 0]), (''no'', [Number 0])]\<rparr>)"
  by code_simp

text \<open>
  Claim C2. Whenever the vectorizer stage returns its two tables, the column \<open>label\<close> of each
  is the target column of the corresponding input, cell for cell and in the same order, and
  each table has one row per label.
\<close>

theorem label_column_is_target:
  assumes "apply_tfidf L train_data test_data mf text_col target_col w =
             (Inr (train_df, test_df), w')"
  shows "\<exists>y_train y_test.
           df_getitem train_data target_col = Inr y_train \<and>
           df_getitem train_df ''label'' = Inr y_train \<and> nrows train_df = length y_train \<and>
           df_getitem test_data target_col = Inr y_test \<and>
           df_getitem test_df ''label'' = Inr y_test \<and> nrows test_df = length y_test"
proof -
  from assms have "apply_tfidf_body L train_data test_data mf text_col target_col =
      Inr (train_df, test_df)"
    by (rule apply_tfidf_InrD)
  then obtain y_train y_test d1 d2 where
    y: "df_getitem train_data target_col = Inr y_train"
       "df_getitem test_data target_col = Inr y_test" and
    s: "df_setitem d1 ''label'' y_train = Inr train_df"
       "df_setitem d2 ''label'' y_test = Inr test_df"
    by (blast dest: apply_tfidf_body_InrD)
  from s have "df_getitem train_df ''label'' = Inr y_train" "nrows train_df = length y_train"
    "df_getitem test_df ''label'' = Inr y_test" "nrows test_df = length y_test"
    by (simp_all add: df_setitem_getitem df_setitem_nrows)
  with y show ?thesis by blast
qed

theorem label_column_is_target_witness:
  "df_getitem train_example ''target'' = Inr [Number 0, Number 1] \<and>
   df_getitem test_example ''target'' = Inr [Number 1] \<and>
   (\<exists>train_df test_df.
      fst (apply_tfidf example_lib train_example test_example (PyInt 3) ''text'' ''target''
             (world_of fs_empty)) = Inr (train_df, test_df) \<and>
      df_getitem train_df ''label'' = Inr [Number 0, Number 1] \<and> nrows train_df = 2 \<and>
      df_getitem test_df ''label'' = Inr [Number 1] \<and> nrows test_df = 1)"
proof -
  obtain train_df test_df w' where
    run: "apply_tfidf example_lib train_example test_example (PyInt 3) ''text'' ''target''
            (world_of fs_empty) = (Inr (train_df, test_df), w')"
    by (simp add: apply_tfidf_def apply_tfidf_example)
  have t: "df_getitem train_example ''target'' = Inr [Number 0, Number 1]"
    "df_getitem test_example ''target'' = Inr [Number 1]"
    by (simp_all add: df_getitem_def train_example_def test_example_def)
  from label_column_is_target [OF run] t
  have "df_getitem train_df ''label'' = Inr [Number 0, Number 1] \<and> nrows train_df = 2 \<and>
        df_getitem test_df ''label'' = Inr [Number 1] \<and> nrows test_df = 1"
    by auto
  with run t show ?thesis by simp
qed

text \<open>
  Claim C10. When the feature names of the fitted vectorizer contain the term \<open>label\<close>,
  the assignment of the labels overwrites the column of that name: the output tables have
  exactly the feature names as their columns, no column is appended, and every column
  named \<open>label\<close> holds the target values, so the weights of the term are gone. Only when
  \<open>label\<close> is not a feature name is the label column a further, last column.
\<close>

theorem label_term_is_overwritten:
  assumes "apply_tfidf_body L train_data test_data mf text_col target_col =
             Inr (train_df, test_df)"
  shows "\<exists>vec X_train v1 M1 X_test v2 M2 names y_train y_test.
           TfidfVectorizer L mf = Inr vec \<and>
           df_getitem train_data text_col = Inr X_train \<and>
           fit_transform L vec X_train = Inr (v1, M1) \<and>
           df_getitem test_data text_col = Inr X_test \<and>
           transform L v1 X_test = Inr (v2, M2) \<and>
           get_feature_names_out L v2 = Inr names \<and>
           df_getitem train_data target_col = Inr y_train \<and>
           df_getitem test_data target_col = Inr y_test \<and>
           map fst (columns train_df) =
             (if ''label'' \<in> set names then names else names @ [''label'']) \<and>
           map fst (columns test_df) =
             (if ''label'' \<in> set names then names else names @ [''label'']) \<and>
           (\<forall>c \<in> set (columns train_df). fst c = ''label'' \<longrightarrow> snd c = y_train) \<and>
           (\<forall>c \<in> set (columns test_df). fst c = ''label'' \<longrightarrow> snd c = y_test)"
proof -
  from apply_tfidf_body_InrD [OF assms]
  obtain vec X_train y_train X_test y_test v1 M1 v2 M2 names d1 d2 where
    lib: "TfidfVectorizer L mf = Inr vec" "df_getitem train_data text_col = Inr X_train"
      "fit_transform L vec X_train = Inr (v1, M1)" "df_getitem test_data text_col = Inr X_test"
      "transform L v1 X_test = Inr (v2, M2)" "get_feature_names_out L v2 = Inr names"
      "df_getitem train_data target_col = Inr y_train"
      "df_getitem test_data target_col = Inr y_test" and
    d: "DataFrame M1 names = Inr d1" "DataFrame M2 names = Inr d2" and
    s: "df_setitem d1 ''label'' y_train = Inr train_df"
       "df_setitem d2 ''label'' y_test = Inr test_df"
    by blast
  have n: "map fst (columns train_df) =
             (if ''label'' \<in> set names then names else names @ [''label''])"
          "map fst (columns test_df) =
             (if ''label'' \<in> set names then names else names @ [''label''])"
    using df_setitem_names [OF s(1)] df_setitem_names [OF s(2)]
      DataFrame_names [OF d(1)] DataFrame_names [OF d(2)]
    by simp_all
  have c: "\<forall>c \<in> set (columns train_df). fst c = ''label'' \<longrightarrow> snd c = y_train"
          "\<forall>c \<in> set (columns test_df). fst c = ''label'' \<longrightarrow> snd c = y_test"
    using df_setitem_columns [OF s(1)] df_setitem_columns [OF s(2)] by auto
  from lib n c show ?thesis by blast
qed

theorem label_term_is_overwritten_witness:
  "\<exists>train_df test_df.
     apply_tfidf_body example_lib train_label_example test_example (PyInt 3) ''text'' ''target'' =
       Inr (train_df, test_df) \<and>
     map fst (columns train_df) = [''label'', ''me'', ''no''] \<and>
     map fst (columns test_df) = [''label'', ''me'', ''no''] \<and>
     df_getitem train_df ''label'' = df_getitem train_label_example ''target'' \<and>
     df_getitem test_df ''label'' = df_getitem test_example ''target''"
proof -
  let ?train = "\<lparr>nrows = 2,
            columns = [(''label'', [Number 0, Number 1]), (''me'', [Number 1, Number 0]),
                       (''no'', [Number (0::nat), Number 1])]\<rparr>"
  let ?test = "\<lparr>nrows = 1,
            columns = [(''label'', [Number 1]), (''me'', [Number 0]), (''no'', [Number (0::nat)])]\<rparr>"
  have run: "apply_tfidf_body example_lib train_label_example test_example (PyInt 3) ''text''
      ''target'' = Inr (?train, ?test)"
    by (rule apply_tfidf_label_example)
  from label_term_is_overwritten [OF run]
  have ex: "\<exists>names. map fst (columns ?train) =
              (if ''label'' \<in> set names then names else names @ [''label''])"
    by blast
  have rest: "map fst (columns ?train) = [''label'', ''me'', ''no''] \<and>
      map fst (columns ?test) = [''label'', ''me'', ''no''] \<and>
      df_getitem ?train ''label'' = df_getitem train_label_example ''target'' \<and>
      df_getitem ?test ''label'' = df_getitem test_example ''target''"
    by (simp add: df_getitem_def train_label_example_def test_example_def)
  from ex run rest show ?thesis
    by - (rule exI [of _ ?train], rule exI [of _ ?test], simp)
qed

subsection \<open>Error paths\<close>

text \<open>
  Claim C3. \<open>load_params\<close> fails with the not-found error when the path does not exist
  and with the parse error when the content is malformed, each logged and then raised to
  the caller. On any other exception of its body it logs the error and returns \<open>None\<close>:
  nothing is raised. The handlers of \<open>load_data\<close>, \<open>apply_tfidf\<close> and \<open>save_data\<close> all
  log and raise again.
\<close>

theorem load_params_error_paths:
  "(open_read L p (w_fs w) = Inl e \<and> kind_of e = FileNotFoundError \<longrightarrow>
      load_params L p w = (Inl e, logger ERROR ''File not found : %s'' [ArgStr p] w)) \<and>
   (open_read L p (w_fs w) = Inr t \<and> yaml_safe_load L t = Inl e \<and> kind_of e = YAMLError \<longrightarrow>
      load_params L p w = (Inl e, logger ERROR ''Yaml error :%s'' [ArgExn e] w)) \<and>
   (load_params_body L p (w_fs w) = Inl e \<and> kind_of e \<noteq> FileNotFoundError \<and>
    kind_of e \<noteq> YAMLError \<longrightarrow>
      load_params L p w = (Inr PyNone, logger ERROR ''Unexpected error : %s'' [ArgExn e] w)) \<and>
   (read_csv L p (w_fs w) = Inl e \<longrightarrow>
      load_data L p w =
        (Inl e,
         logger ERROR
           (if kind_of e = ParserError then ''Failed to parse the CSV file: %s''
            else ''Unexpected error occurred while loading the data: %s'') [ArgExn e] w)) \<and>
   (apply_tfidf_body L tr te mf tc yc = Inl e \<longrightarrow>
      apply_tfidf L tr te mf tc yc w =
        (Inl e, logger ERROR ''Error during TF-IDF transformation: %s'' [ArgExn e] w)) \<and>
   (makedirs L (dirname p) (w_fs w) = Inl e \<longrightarrow>
      save_data L df p w =
        (Inl e, logger ERROR ''Unexpected error occurred while saving the data: %s'' [ArgExn e] w)) \<and>
   (makedirs L (dirname p) (w_fs w) = Inr s1 \<and> to_csv L df p s1 = Inl e \<longrightarrow>
      save_data L df p w =
        (Inl e,
         logger ERROR ''Unexpected error occurred while saving the data: %s'' [ArgExn e]
           (w\<lparr>w_fs := s1\<rparr>)))"
  by (simp add: load_params_def load_params_body_def load_data_def apply_tfidf_def save_data_def)

theorem load_params_error_paths_witness:
  "load_params example_lib ''params.yaml'' (world_of fs_empty) =
     (Inl (Exn FileNotFoundError ''No such file or directory''),
      logger ERROR ''File not found : %s'' [ArgStr ''params.yaml''] (world_of fs_empty)) \<and>
   load_params example_lib ''params.yaml''
       (world_of (fs_empty\<lparr>fs_texts := [''params.yaml'' \<mapsto> ''a: b: c'']\<rparr>)) =
     (Inl (Exn YAMLError ''mapping values are not allowed here''),
      logger ERROR ''Yaml error :%s'' [ArgExn (Exn YAMLError ''mapping values are not allowed here'')]
        (world_of (fs_empty\<lparr>fs_texts := [''params.yaml'' \<mapsto> ''a: b: c'']\<rparr>))) \<and>
   load_params example_lib ''params.yaml'' (world_of (fs_empty\<lparr>fs_dirs := {''params.yaml''}\<rparr>)) =
     (Inr PyNone,
      logger ERROR ''Unexpected error : %s'' [ArgExn (Exn OtherError ''Is a directory'')]
        (world_of (fs_empty\<lparr>fs_dirs := {''params.yaml''}\<rparr>))) \<and>
   fst (load_data example_lib ''absent.csv'' (world_of fs_empty)) =
     Inl (Exn FileNotFoundError ''absent.csv'') \<and>
   fst (apply_tfidf example_lib train_empty_example test_example (PyInt 3) ''text'' ''target''
          (world_of fs_empty)) =
     Inl (Exn ValueError ''empty vocabulary; perhaps the documents only contain stop words'') \<and>
   fst (save_data example_lib test_example ''out.csv'' (world_of fs_empty)) =
     Inl (Exn FileNotFoundError ''No such file or directory'') \<and>
   fst (save_data example_lib test_example ''./data'' (world_of fs_example)) =
     Inl (Exn OtherError ''Is a directory'')"
proof -
  let ?nf = "Exn FileNotFoundError ''No such file or directory''"
  let ?ye = "Exn YAMLError ''mapping values are not allowed here''"
  let ?w2 = "world_of (fs_empty\<lparr>fs_texts := [''params.yaml'' \<mapsto> ''a: b: c'']\<rparr>)"
  let ?w3 = "world_of (fs_empty\<lparr>fs_dirs := {''params.yaml''}\<rparr>)"
  have 1: "open_read example_lib ''params.yaml'' (w_fs (world_of fs_empty)) = Inl ?nf"
    by (simp add: example_lib_def ref_lib_def ref_open_read_def world_of_def fs_empty_def)
  have 2: "open_read example_lib ''params.yaml'' (w_fs ?w2) = Inr ''a: b: c'' \<and>
           yaml_safe_load example_lib ''a: b: c'' = Inl ?ye"
    by (simp add: example_lib_def ref_lib_def ref_open_read_def world_of_def fs_empty_def
          yaml_example_def)
  have 3: "load_params_body example_lib ''params.yaml'' (w_fs ?w3) =
             Inl (Exn OtherError ''Is a directory'')"
    by (simp add: load_params_body_def example_lib_def ref_lib_def ref_open_read_def world_of_def
          fs_empty_def)
  have 4: "read_csv example_lib ''absent.csv'' (w_fs (world_of fs_empty)) =
             Inl (Exn FileNotFoundError ''absent.csv'')"
    by (simp add: example_lib_def ref_lib_def ref_read_csv_def world_of_def fs_empty_def)
  have 5: "apply_tfidf_body example_lib train_empty_example test_example (PyInt 3) ''text'' ''target'' =
             Inl (Exn ValueError ''empty vocabulary; perhaps the documents only contain stop words'')"
    by code_simp
  have 6: "makedirs example_lib (dirname ''out.csv'') (w_fs (world_of fs_empty)) = Inl ?nf"
    by (simp add: example_lib_def ref_lib_def ref_makedirs_def dirname_def)
  have 7: "\<exists>s1. makedirs example_lib (dirname ''./data'') (w_fs (world_of fs_example)) = Inr s1 \<and>
             to_csv example_lib test_example ''./data'' s1 = Inl (Exn OtherError ''Is a directory'')"
    by (simp add: example_lib_def ref_lib_def ref_makedirs_def ref_to_csv_def dirname_def
          ancestors_def world_of_def fs_example_def)
  then obtain s1 where
    7: "makedirs example_lib (dirname ''./data'') (w_fs (world_of fs_example)) = Inr s1"
       "to_csv example_lib test_example ''./data'' s1 = Inl (Exn OtherError ''Is a directory'')"
    by blast
  show ?thesis
    using load_params_error_paths [of example_lib "''params.yaml''" "world_of fs_empty" ?nf]
      load_params_error_paths [of example_lib "''params.yaml''" ?w2 ?ye "''a: b: c''"]
      load_params_error_paths [of example_lib "''params.yaml''" ?w3 "Exn OtherError ''Is a directory''"]
      load_params_error_paths [of example_lib "''absent.csv''" "world_of fs_empty"
        "Exn FileNotFoundError ''absent.csv''"]
      load_params_error_paths [where L = example_lib and w = "world_of fs_empty" and
        e = "Exn ValueError ''empty vocabulary; perhaps the documents only contain stop words''" and
        tr = train_empty_example and te = test_example and mf = "PyInt 3" and
        tc = "''text''" and yc = "''target''"]
      load_params_error_paths [where L = example_lib and p = "''out.csv''" and
        w = "world_of fs_empty" and e = ?nf and df = test_example]
      load_params_error_paths [where L = example_lib and p = "''./data''" and
        w = "world_of fs_example" and e = "Exn OtherError ''Is a directory''" and
        df = test_example and ?s1.0 = s1]
      1 2 3 4 5 6 7
    by simp
qed

subsection \<open>The fitted vocabulary\<close>

lemma limit_features_length: "length (limit_features (PyInt n) toks terms) \<le> nat n"
  by (simp add: limit_features_def)

lemma limit_features_subset: "set (limit_features mf toks terms) \<subseteq> set terms"
proof (cases mf)
  case (PyInt n)
  have "set (take (nat n) (sort_key (\<lambda>t. - int (count_list toks t)) terms)) \<subseteq> set terms"
    using set_take_subset [of "nat n" "sort_key (\<lambda>t. - int (count_list toks t)) terms"]
    by simp
  with PyInt show ?thesis by (simp add: limit_features_def)
qed (simp_all add: limit_features_def)

lemma fit_vocabulary_Inr:
  assumes "fit_vocabulary mf docs = Inr vocab"
  shows "set vocab \<subseteq> set (concat (map analyze docs))"
    and "mf = PyInt n \<Longrightarrow> length vocab \<le> nat n"
proof -
  let ?toks = "concat (map analyze docs)"
  from assms have v: "vocab = limit_features mf ?toks (sort (remdups ?toks))"
    by (simp add: fit_vocabulary_def Let_def split: if_splits)
  show "set vocab \<subseteq> set ?toks"
    using limit_features_subset [of mf ?toks "sort (remdups ?toks)"] by (simp add: v)
  show "mf = PyInt n \<Longrightarrow> length vocab \<le> nat n"
    by (simp add: v limit_features_length)
qed

lemma ref_fit_transform_Inr:
  assumes "ref_fit_transform weigh v cells = Inr (v1, M)"
  shows "\<exists>docs vocab. documents cells = Inr docs \<and>
           fit_vocabulary (v_max_features v) docs = Inr vocab \<and> v_vocabulary v1 = Some vocab"
  using assms
  by (auto simp: ref_fit_transform_def Let_def split: if_splits elim!: bind_exn_InrE)

lemma ref_transform_Inr:
  assumes "ref_transform weigh v cells = Inr (v2, M)"
  shows "v2 = v"
  using assms
  by (auto simp: ref_transform_def split: option.splits elim!: bind_exn_InrE)

lemma ref_get_feature_names_out_Inr:
  "ref_get_feature_names_out v = Inr names \<longleftrightarrow> v_vocabulary v = Some names"
  by (simp add: ref_get_feature_names_out_def split: option.splits)

text \<open>
  Claim C1. With a configured maximum \<open>n\<close>, whenever the stage returns, the vocabulary is
  the one fitted from the documents of the training text column alone (the test dataset
  does not enter it), its terms are terms of those documents, it has at most \<open>n\<close> terms,
  the transform of the test text returns the fitted vectorizer as it was, and both output
  tables are named by that vocabulary.
\<close>

theorem vocabulary_from_training_only:
  assumes "apply_tfidf_body (ref_lib yaml weigh fmt) train_data test_data (PyInt n)
             text_col target_col = Inr (train_df, test_df)"
  shows "\<exists>X_train docs vocab vec v1 M1 X_test M2.
           df_getitem train_data text_col = Inr X_train \<and> documents X_train = Inr docs \<and>
           fit_vocabulary (PyInt n) docs = Inr vocab \<and>
           set vocab \<subseteq> set (concat (map analyze docs)) \<and>
           length vocab \<le> nat n \<and>
           ref_TfidfVectorizer (PyInt n) = Inr vec \<and>
           ref_fit_transform weigh vec X_train = Inr (v1, M1) \<and>
           v_vocabulary v1 = Some vocab \<and>
           df_getitem test_data text_col = Inr X_test \<and>
           ref_transform weigh v1 X_test = Inr (v1, M2) \<and>
           map fst (columns train_df) =
             (if ''label'' \<in> set vocab then vocab else vocab @ [''label'']) \<and>
           map fst (columns test_df) =
             (if ''label'' \<in> set vocab then vocab else vocab @ [''label''])"
proof -
  let ?L = "ref_lib yaml weigh fmt"
  from apply_tfidf_body_InrD [OF assms]
  obtain vec X_train y_train X_test y_test v1 M1 v2 M2 names d1 d2 where
    vec: "TfidfVectorizer ?L (PyInt n) = Inr vec" and
    x: "df_getitem train_data text_col = Inr X_train"
       "df_getitem test_data text_col = Inr X_test" and
    fit: "fit_transform ?L vec X_train = Inr (v1, M1)" and
    tr: "transform ?L v1 X_test = Inr (v2, M2)" and
    names: "get_feature_names_out ?L v2 = Inr names" and
    d: "DataFrame M1 names = Inr d1" "DataFrame M2 names = Inr d2" and
    s: "df_setitem d1 ''label'' y_train = Inr train_df"
       "df_setitem d2 ''label'' y_test = Inr test_df"
    by blast
  from vec have vec': "ref_TfidfVectorizer (PyInt n) = Inr vec" and mf: "v_max_features vec = PyInt n"
    by (auto simp: ref_lib_def ref_TfidfVectorizer_def)
  from fit have fit': "ref_fit_transform weigh vec X_train = Inr (v1, M1)"
    by (simp add: ref_lib_def)
  from ref_fit_transform_Inr [OF fit'] mf obtain docs vocab where
    docs: "documents X_train = Inr docs" and
    vocab: "fit_vocabulary (PyInt n) docs = Inr vocab" "v_vocabulary v1 = Some vocab"
    by auto
  from tr have tr': "ref_transform weigh v1 X_test = Inr (v2, M2)"
    by (simp add: ref_lib_def)
  then have same: "v2 = v1" by (rule ref_transform_Inr)
  from names same vocab(2) have n: "names = vocab"
    by (simp add: ref_lib_def ref_get_feature_names_out_Inr)
  have cols: "map fst (columns train_df) =
             (if ''label'' \<in> set vocab then vocab else vocab @ [''label''])"
          "map fst (columns test_df) =
             (if ''label'' \<in> set vocab then vocab else vocab @ [''label''])"
    using df_setitem_names [OF s(1)] df_setitem_names [OF s(2)]
      DataFrame_names [OF d(1)] DataFrame_names [OF d(2)] n
    by simp_all
  from x docs vocab fit_vocabulary_Inr [OF vocab(1)] vec' fit' tr' same cols
  show ?thesis by blast
qed

theorem vocabulary_from_training_only_witness:
  "\<exists>train_df test_df.
     apply_tfidf_body example_lib train_example test_example (PyInt 3) ''text'' ''target'' =
       Inr (train_df, test_df) \<and>
     fit_vocabulary (PyInt 3) [''cat sat'', ''dog ran fast''] = Inr [''cat'', ''dog'', ''fast''] \<and>
     length [''cat'', ''dog'', ''fast''] \<le> nat 3 \<and>
     map fst (columns train_df) = [''cat'', ''dog'', ''fast'', ''label''] \<and>
     map fst (columns test_df) = [''cat'', ''dog'', ''fast'', ''label'']"
proof -
  let ?train = "\<lparr>nrows = 2,
            columns = [(''cat'', [Number 1, Number 0]), (''dog'', [Number 0, Number 1]),
                       (''fast'', [Number 0, Number 1]), (''label'', [Number (0::nat), Number 1])]\<rparr>"
  let ?test = "\<lparr>nrows = 1,
            columns = [(''cat'', [Number 1]), (''dog'', [Number 0]), (''fast'', [Number 0]),
                       (''label'', [Number (1::nat)])]\<rparr>"
  have run: "apply_tfidf_body example_lib train_example test_example (PyInt 3) ''text'' ''target'' =
      Inr (?train, ?test)"
    by (rule apply_tfidf_example)
  from vocabulary_from_training_only [OF run [unfolded example_lib_def]]
  obtain X_train docs vocab where
    x: "df_getitem train_example ''text'' = Inr X_train" "documents X_train = Inr docs" and
    v: "fit_vocabulary (PyInt 3) docs = Inr vocab" "length vocab \<le> nat 3" and
    c: "map fst (columns ?train) = (if ''label'' \<in> set vocab then vocab else vocab @ [''label''])"
       "map fst (columns ?test) = (if ''label'' \<in> set vocab then vocab else vocab @ [''label''])"
    by blast
  from x have docs: "docs = [''cat sat'', ''dog ran fast'']"
    by (auto simp: df_getitem_def train_example_def)
  have fit: "fit_vocabulary (PyInt 3) [''cat sat'', ''dog ran fast''] = Inr [''cat'', ''dog'', ''fast'']"
    by code_simp
  with v docs have vocab: "vocab = [''cat'', ''dog'', ''fast'']" by simp
  from run fit c vocab show ?thesis
    by - (rule exI [of _ ?train], rule exI [of _ ?test], simp)
qed

lemma analyze_empty: "analyze [] = []"
  by (simp add: analyze_def)

lemma documents_empty_texts:
  "\<forall>c \<in> set cells. c = Text [] \<Longrightarrow> documents cells = Inr (replicate (length cells) [])"
  by (induction cells) auto

lemma no_terms_in_empty_documents: "concat (map analyze (replicate k [])) = []"
  by (induction k) (simp_all add: analyze_empty)

lemma ref_fit_transform_empty_texts:
  assumes "\<forall>c \<in> set cells. c = Text []"
  shows "\<exists>e. ref_fit_transform weigh v cells = Inl e"
proof -
  have "fit_vocabulary mf (replicate (length cells) []) =
      Inl (Exn ValueError ''empty vocabulary; perhaps the documents only contain stop words'')"
    for mf
    unfolding fit_vocabulary_def no_terms_in_empty_documents by simp
  with documents_empty_texts [OF assms] show ?thesis
    by (simp add: ref_fit_transform_def)
qed

lemma bind_exn_fails:
  assumes "\<And>x. m = Inr x \<Longrightarrow> \<exists>e. f x = Inl e"
  shows "\<exists>e. bind_exn m f = Inl e"
  using assms by (cases m) auto

lemma ref_empty_training_text_fails:
  assumes "df_getitem train_data text_col = Inr X_train"
    and "\<forall>c \<in> set X_train. c = Text []"
  shows "\<exists>docs e.
           documents X_train = Inr docs \<and>
           length (sort (remdups (concat (map analyze docs)))) = 0 \<and>
           apply_tfidf (ref_lib yaml weigh fmt) train_data test_data mf text_col target_col w =
             (Inl e, logger ERROR ''Error during TF-IDF transformation: %s'' [ArgExn e] w)"
proof -
  let ?L = "ref_lib yaml weigh fmt"
  have docs: "documents X_train = Inr (replicate (length X_train) [])"
    using assms(2) by (rule documents_empty_texts)
  have fit: "\<exists>e. fit_transform ?L v X_train = Inl e" for v
    using ref_fit_transform_empty_texts [OF assms(2)] by (simp add: ref_lib_def)
  have "apply_tfidf_body ?L train_data test_data mf text_col target_col \<noteq> Inr r" for r
  proof
    assume "apply_tfidf_body ?L train_data test_data mf text_col target_col = Inr r"
    then have "apply_tfidf_body ?L train_data test_data mf text_col target_col =
        Inr (fst r, snd r)"
      by simp
    from apply_tfidf_body_InrD [OF this] assms(1) obtain vec v1 M1 where
      "fit_transform ?L vec X_train = Inr (v1, M1)"
      by auto
    with fit [of vec] show False by simp
  qed
  then obtain e where "apply_tfidf_body ?L train_data test_data mf text_col target_col = Inl e"
    by (cases "apply_tfidf_body ?L train_data test_data mf text_col target_col") auto
  then have "apply_tfidf ?L train_data test_data mf text_col target_col w =
      (Inl e, logger ERROR ''Error during TF-IDF transformation: %s'' [ArgExn e] w)"
    by (simp add: apply_tfidf_def)
  with docs show ?thesis
    by (simp add: analyze_empty)
qed

lemma DataFrame_no_names: "DataFrame m [] = Inr df \<Longrightarrow> columns df = []"
  by (auto simp: DataFrame_def split: if_splits)

lemma df_setitem_only_column:
  assumes "df_setitem df name vs = Inr df'" and "columns df = []"
  shows "columns df' = [(name, vs)]"
proof -
  from assms(2) have "columns (ensure_valid_index df vs) = []"
    by (simp add: ensure_valid_index_def)
  with df_setitem_Inr [OF assms(1)] show ?thesis
    by (simp add: set_column_def)
qed

text \<open>
  Claim C8. The stage has no handling of its own for an empty vocabulary: whatever the
  library does, the stage either signals a transformation failure (the error is logged
  and raised again) or returns its tables, and when the fitted vocabulary has size zero
  those tables hold the label column and nothing else. Which of the two happens is the
  vectorizer's choice. For the reference vectorizer, a training text column that is the
  empty string in every row has no term, so the vocabulary to fit has size zero, the fit
  raises, and the stage signals the failure.
\<close>

theorem empty_vocabulary_label_only_or_failure:
  "((\<exists>e. apply_tfidf L train_data test_data mf text_col target_col w =
           (Inl e, logger ERROR ''Error during TF-IDF transformation: %s'' [ArgExn e] w)) \<or>
    (\<exists>train_df test_df vec X_train v1 M1 X_test v2 M2 names y_train y_test.
       apply_tfidf L train_data test_data mf text_col target_col w =
         (Inr (train_df, test_df),
          logger DEBUG ''TF-IDF applied. Train shape: %s, Test shape: %s''
            [ArgShape (shape train_df), ArgShape (shape test_df)] w) \<and>
       TfidfVectorizer L mf = Inr vec \<and>
       df_getitem train_data text_col = Inr X_train \<and>
       fit_transform L vec X_train = Inr (v1, M1) \<and>
       df_getitem test_data text_col = Inr X_test \<and>
       transform L v1 X_test = Inr (v2, M2) \<and>
       get_feature_names_out L v2 = Inr names \<and>
       df_getitem train_data target_col = Inr y_train \<and>
       df_getitem test_data target_col = Inr y_test \<and>
       (names = [] \<longrightarrow>
          columns train_df = [(''label'', y_train)] \<and>
          columns test_df = [(''label'', y_test)]))) \<and>
   (df_getitem train_data' text_col = Inr X \<and> (\<forall>c \<in> set X. c = Text []) \<longrightarrow>
      (\<exists>docs e.
         documents X = Inr docs \<and>
         length (sort (remdups (concat (map analyze docs)))) = 0 \<and>
         apply_tfidf (ref_lib yaml weigh fmt) train_data' test_data' mf text_col target_col w' =
           (Inl e, logger ERROR ''Error during TF-IDF transformation: %s'' [ArgExn e] w')))"
proof (intro conjI impI)
  show "(\<exists>e. apply_tfidf L train_data test_data mf text_col target_col w =
           (Inl e, logger ERROR ''Error during TF-IDF transformation: %s'' [ArgExn e] w)) \<or>
    (\<exists>train_df test_df vec X_train v1 M1 X_test v2 M2 names y_train y_test.
       apply_tfidf L train_data test_data mf text_col target_col w =
         (Inr (train_df, test_df),
          logger DEBUG ''TF-IDF applied. Train shape: %s, Test shape: %s''
            [ArgShape (shape train_df), ArgShape (shape test_df)] w) \<and>
       TfidfVectorizer L mf = Inr vec \<and>
       df_getitem train_data text_col = Inr X_train \<and>
       fit_transform L vec X_train = Inr (v1, M1) \<and>
       df_getitem test_data text_col = Inr X_test \<and>
       transform L v1 X_test = Inr (v2, M2) \<and>
       get_feature_names_out L v2 = Inr names \<and>
       df_getitem train_data target_col = Inr y_train \<and>
       df_getitem test_data target_col = Inr y_test \<and>
       (names = [] \<longrightarrow>
          columns train_df = [(''label'', y_train)] \<and>
          columns test_df = [(''label'', y_test)]))"
  proof (cases "apply_tfidf_body L train_data test_data mf text_col target_col")
    case (Inl e)
    then show ?thesis by (simp add: apply_tfidf_def)
  next
    case (Inr r)
    obtain train_df test_df where r: "r = (train_df, test_df)" by (cases r)
    from apply_tfidf_body_InrD [OF Inr [unfolded r]]
    obtain vec X_train y_train X_test y_test v1 M1 v2 M2 names d1 d2 where
      lib: "TfidfVectorizer L mf = Inr vec" "df_getitem train_data text_col = Inr X_train"
        "fit_transform L vec X_train = Inr (v1, M1)" "df_getitem test_data text_col = Inr X_test"
        "transform L v1 X_test = Inr (v2, M2)" "get_feature_names_out L v2 = Inr names"
        "df_getitem train_data target_col = Inr y_train"
        "df_getitem test_data target_col = Inr y_test" and
      d: "DataFrame M1 names = Inr d1" "DataFrame M2 names = Inr d2" and
      s: "df_setitem d1 ''label'' y_train = Inr train_df"
         "df_setitem d2 ''label'' y_test = Inr test_df"
      by blast
    have only: "names = [] \<longrightarrow>
          columns train_df = [(''label'', y_train)] \<and> columns test_df = [(''label'', y_test)]"
      using d s by (auto dest!: DataFrame_no_names dest: df_setitem_only_column)
    have run: "apply_tfidf L train_data test_data mf text_col target_col w =
         (Inr (train_df, test_df),
          logger DEBUG ''TF-IDF applied. Train shape: %s, Test shape: %s''
            [ArgShape (shape train_df), ArgShape (shape test_df)] w)"
      using Inr r by (simp add: apply_tfidf_def)
    from run lib only show ?thesis by blast
  qed
next
  assume "df_getitem train_data' text_col = Inr X \<and> (\<forall>c \<in> set X. c = Text [])"
  then show "\<exists>docs e.
         documents X = Inr docs \<and>
         length (sort (remdups (concat (map analyze docs)))) = 0 \<and>
         apply_tfidf (ref_lib yaml weigh fmt) train_data' test_data' mf text_col target_col w' =
           (Inl e, logger ERROR ''Error during TF-IDF transformation: %s'' [ArgExn e] w')"
    using ref_empty_training_text_fails [of train_data' text_col X] by blast
qed

theorem empty_vocabulary_label_only_or_failure_witness:
  "df_getitem train_empty_example ''text'' = Inr [Text [], Text []] \<and>
   documents [Text [], Text [] :: nat cell] = Inr [[], []] \<and>
   fst (apply_tfidf example_lib train_empty_example test_example (PyInt 3) ''text'' ''target''
          (world_of fs_empty)) =
     Inl (Exn ValueError ''empty vocabulary; perhaps the documents only contain stop words'')"
proof -
  have x: "df_getitem train_empty_example ''text'' = Inr [Text [], Text []]"
    by (simp add: df_getitem_def train_empty_example_def)
  have h: "\<forall>c \<in> set [Text [], Text [] :: nat cell]. c = Text []"
    by simp
  have "df_getitem train_empty_example ''text'' = Inr [Text [], Text []] \<and>
      (\<forall>c \<in> set [Text [], Text [] :: nat cell]. c = Text []) \<longrightarrow>
      (\<exists>docs e.
         documents [Text [], Text [] :: nat cell] = Inr docs \<and>
         length (sort (remdups (concat (map analyze docs)))) = 0 \<and>
         apply_tfidf (ref_lib yaml_example count_weigh decimal) train_empty_example test_example
           (PyInt 3) ''text'' ''target'' (world_of fs_empty) =
           (Inl e, logger ERROR ''Error during TF-IDF transformation: %s'' [ArgExn e]
              (world_of fs_empty)))"
    by (rule conjunct2 [OF empty_vocabulary_label_only_or_failure])
  with x h obtain e where
    "fst (apply_tfidf example_lib train_empty_example test_example (PyInt 3) ''text'' ''target''
            (world_of fs_empty)) = Inl e"
    unfolding example_lib_def by fastforce
  moreover have "apply_tfidf_body example_lib train_empty_example test_example (PyInt 3) ''text''
      ''target'' =
      Inl (Exn ValueError ''empty vocabulary; perhaps the documents only contain stop words'')"
    by code_simp
  moreover have "documents [Text [], Text [] :: nat cell] = Inr [[], []]"
    by code_simp
  ultimately show ?thesis using x
    by (simp add: apply_tfidf_def)
qed

subsection \<open>Writing a table\<close>

lemma dirname_path_join:
  assumes "d \<noteq> []" and "last d \<noteq> CHR ''/''" and "f \<noteq> []" and "CHR ''/'' \<notin> set f"
  shows "dirname (path_join d f) = d"
proof -
  from assms(1) obtain ys y where d: "d = ys @ [y]"
    by (cases d rule: rev_cases) auto
  with assms(2) have y: "y \<noteq> CHR ''/''"
    by simp
  from assms(3,4) have "hd f \<noteq> CHR ''/''"
    by (cases f) auto
  with assms(1-3) have join: "path_join d f = d @ CHR ''/'' # f"
    by (simp add: path_join_def)
  have "dropWhile (\<lambda>c. c \<noteq> CHR ''/'') (rev f @ CHR ''/'' # y # rev ys) = CHR ''/'' # y # rev ys"
    using assms(4) by (subst dropWhile_append2) auto
  then have head: "rev (dropWhile (\<lambda>c. c \<noteq> CHR ''/'') (rev (d @ CHR ''/'' # f))) = ys @ [y, CHR ''/'']"
    by (simp add: d)
  have strip: "rev (dropWhile (\<lambda>c. c = CHR ''/'') (rev (ys @ [y, CHR ''/'']))) = ys @ [y]"
    using y by simp
  have some: "\<exists>c \<in> set (ys @ [y, CHR ''/'']). c \<noteq> CHR ''/''"
    using y by auto
  have "dirname (d @ CHR ''/'' # f) = ys @ [y]"
    unfolding dirname_def Let_def head strip using some by simp
  with join d show ?thesis
    by simp
qed

lemma ancestors_self: "p \<noteq> [] \<Longrightarrow> p \<in> set (ancestors p)"
  by (auto simp: ancestors_def image_iff intro!: bexI [of _ "length p"])

lemma ref_save_data_Inr:
  assumes "save_data (ref_lib yaml weigh fmt) df p w = (Inr (), w1)"
  shows "dirname p \<noteq> []"
    and "fs_dirs (w_fs w1) = fs_dirs (w_fs w) \<union> set (ancestors (dirname p))"
    and "fs_files (w_fs w1) p = Some (csv_records fmt df)"
  using assms
  by (auto simp: save_data_def ref_lib_def ref_makedirs_def ref_to_csv_def logger_def
      split: if_splits sum.splits)

text \<open>
  Claim C9. The writer calls the directory creation on the directory part of the
  destination first and the table writer second, on the file system the first call
  left. A failure of either call is logged as an error and raised again (the second
  one leaves the directories created); a success is logged. The directory part of a
  joined path is the directory it was joined from. With the reference library, a
  successful call leaves every ancestor of the directory part in place and, at the
  destination, the column names as the first record followed by one record per row,
  each with exactly one field per column: no row index is written.
\<close>

theorem save_data_creates_directories_then_writes:
  "(makedirs L (dirname file_path) (w_fs w) = Inl e \<longrightarrow>
      save_data L df file_path w =
        (Inl e, logger ERROR ''Unexpected error occurred while saving the data: %s'' [ArgExn e] w)) \<and>
   (makedirs L (dirname file_path) (w_fs w) = Inr s1 \<and> to_csv L df file_path s1 = Inl e \<longrightarrow>
      save_data L df file_path w =
        (Inl e, logger ERROR ''Unexpected error occurred while saving the data: %s'' [ArgExn e]
                  (w\<lparr>w_fs := s1\<rparr>))) \<and>
   (makedirs L (dirname file_path) (w_fs w) = Inr s1 \<and> to_csv L df file_path s1 = Inr s2 \<longrightarrow>
      save_data L df file_path w =
        (Inr (), logger DEBUG ''Data saved to %s'' [ArgStr file_path] (w\<lparr>w_fs := s2\<rparr>))) \<and>
   (d \<noteq> [] \<and> last d \<noteq> CHR ''/'' \<and> f \<noteq> [] \<and> CHR ''/'' \<notin> set f \<longrightarrow>
      dirname (path_join d f) = d) \<and>
   (save_data (ref_lib yaml weigh fmt) df' path w' = (Inr (), w1) \<longrightarrow>
      dirname path \<in> fs_dirs (w_fs w1) \<and>
      set (ancestors (dirname path)) \<subseteq> fs_dirs (w_fs w1) \<and>
      (\<exists>rows.
         fs_files (w_fs w1) path = Some (map fst (columns df') # rows) \<and>
         length rows = nrows df' \<and>
         (\<forall>r \<in> set rows. length r = length (columns df')) \<and>
         (\<forall>i < nrows df'. \<forall>j < length (columns df').
            rows ! i ! j = cell_text fmt (snd (columns df' ! j) ! i))))"
proof (intro conjI impI)
  assume run: "save_data (ref_lib yaml weigh fmt) df' path w' = (Inr (), w1)"
  from ref_save_data_Inr [OF run] show "dirname path \<in> fs_dirs (w_fs w1)"
    by (simp add: ancestors_self)
  from ref_save_data_Inr [OF run] show "set (ancestors (dirname path)) \<subseteq> fs_dirs (w_fs w1)"
    by simp
  let ?rows = "map (\<lambda>i. map (\<lambda>(n, cs). cell_text fmt (cs ! i)) (columns df')) [0..<nrows df']"
  have "fs_files (w_fs w1) path = Some (map fst (columns df') # ?rows)"
    using ref_save_data_Inr(3) [OF run] by (simp add: csv_records_def)
  moreover have "length ?rows = nrows df'"
    by simp
  moreover have "\<forall>r \<in> set ?rows. length r = length (columns df')"
    by auto
  moreover have "\<forall>i < nrows df'. \<forall>j < length (columns df').
      ?rows ! i ! j = cell_text fmt (snd (columns df' ! j) ! i)"
    by (simp add: case_prod_beta)
  ultimately show "\<exists>rows.
         fs_files (w_fs w1) path = Some (map fst (columns df') # rows) \<and>
         length rows = nrows df' \<and>
         (\<forall>r \<in> set rows. length r = length (columns df')) \<and>
         (\<forall>i < nrows df'. \<forall>j < length (columns df').
            rows ! i ! j = cell_text fmt (snd (columns df' ! j) ! i))"
    by blast
qed (simp_all add: save_data_def dirname_path_join)

theorem save_data_creates_directories_then_writes_witness:
  "fst (save_data example_lib test_example (path_join ''./data/processed'' ''test_tfidf.csv'')
          (world_of fs_example)) = Inr () \<and>
   dirname (path_join ''./data/processed'' ''test_tfidf.csv'') = ''./data/processed'' \<and>
   ''./data/processed'' \<notin> fs_dirs fs_example \<and>
   ''./data/processed'' \<in>
     fs_dirs (w_fs (snd (save_data example_lib test_example ''./data/processed/test_tfidf.csv''
                          (world_of fs_example)))) \<and>
   fs_files (w_fs (snd (save_data example_lib test_example ''./data/processed/test_tfidf.csv''
                          (world_of fs_example)))) ''./data/processed/test_tfidf.csv'' =
     Some [[''text'', ''target''], [''cat ran'', ''1'']] \<and>
   save_data example_lib test_example ''test_tfidf.csv'' (world_of fs_example) =
     (Inl (Exn FileNotFoundError ''No such file or directory''),
      logger ERROR ''Unexpected error occurred while saving the data: %s''
        [ArgExn (Exn FileNotFoundError ''No such file or directory'')] (world_of fs_example))"
proof -
  let ?p = "''./data/processed/test_tfidf.csv''"
  let ?r = "save_data example_lib test_example ?p (world_of fs_example)"
  have p: "path_join ''./data/processed'' ''test_tfidf.csv'' = ?p"
    by code_simp
  have ok: "fst ?r = Inr ()"
    by code_simp
  then have run: "save_data (ref_lib yaml_example count_weigh decimal) test_example ?p
      (world_of fs_example) = (Inr (), snd ?r)"
    by (simp add: example_lib_def prod_eq_iff)
  have d: "dirname ''./data/processed/test_tfidf.csv'' = ''./data/processed''"
    by code_simp
  have "dirname ''./data/processed/test_tfidf.csv'' \<in> fs_dirs (w_fs (snd ?r))"
    by (rule save_data_creates_directories_then_writes
        [THEN conjunct2, THEN conjunct2, THEN conjunct2, THEN conjunct2, THEN mp, OF run,
         THEN conjunct1])
  with d have dir: "''./data/processed'' \<in> fs_dirs (w_fs (snd ?r))"
    by simp
  have mk: "makedirs example_lib (dirname ''test_tfidf.csv'') (w_fs (world_of fs_example)) =
      Inl (Exn FileNotFoundError ''No such file or directory'')"
    by (simp add: example_lib_def ref_lib_def ref_makedirs_def dirname_def)
  have fail: "save_data example_lib test_example ''test_tfidf.csv'' (world_of fs_example) =
     (Inl (Exn FileNotFoundError ''No such file or directory''),
      logger ERROR ''Unexpected error occurred while saving the data: %s''
        [ArgExn (Exn FileNotFoundError ''No such file or directory'')] (world_of fs_example))"
    by (rule save_data_creates_directories_then_writes [THEN conjunct1, THEN mp, OF mk])
  have new: "''./data/processed'' \<notin> fs_dirs fs_example"
    by (simp add: fs_example_def)
  have written: "fs_files (w_fs (snd ?r)) ?p = Some [[''text'', ''target''], [''cat ran'', ''1'']]"
    by code_simp
  from ok show ?thesis
    unfolding p d using dir written fail new by simp
qed

subsection \<open>Reading a table\<close>

lemma fillna_nrows: "nrows (fillna v df) = nrows df"
  by (simp add: fillna_def)

lemma fillna_names: "map fst (columns (fillna v df)) = map fst (columns df)"
  by (simp add: fillna_def case_prod_beta comp_def)

lemma fillna_column:
  "j < length (columns df) \<Longrightarrow>
     snd (columns (fillna v df) ! j) =
       map (\<lambda>c. if c = Missing then Text v else c) (snd (columns df ! j))"
proof -
  have "fill_cell v c = (if c = Missing then Text v else c)" for c :: "'a cell"
    by (cases c) simp_all
  then have "fill_cell v = (\<lambda>c :: 'a cell. if c = Missing then Text v else c)"
    by (rule ext)
  then show "j < length (columns df) \<Longrightarrow>
     snd (columns (fillna v df) ! j) =
       map (\<lambda>c. if c = Missing then Text v else c) (snd (columns df ! j))"
    by (simp add: fillna_def case_prod_beta)
qed

lemma fill_field: "fill_cell [] (field l j) = Text (if j < length l then l ! j else [])"
  by (simp add: field_def)

lemma ref_load_data:
  fixes fmt :: "'w \<Rightarrow> string"
  assumes "fs_files (w_fs w) path = Some (header # lines)"
    and "header \<noteq> []"
    and "\<forall>l \<in> set lines. length l \<le> length header"
  shows "load_data (ref_lib yaml weigh fmt) path w =
           (Inr \<lparr>nrows = length lines,
                 columns = map (\<lambda>j. (header ! j,
                     map (\<lambda>l. Text (if j < length l then l ! j else [])) lines))
                   [0..<length header]\<rparr>,
            logger DEBUG ''Data loaded and NaNs filled from %s'' [ArgStr path] w)"
proof -
  from assms(3) have "\<not> (\<exists>l \<in> set lines. length header < length l)"
    by (auto simp: not_less)
  with assms(1,2) have "(ref_read_csv path (w_fs w) :: exn + 'w dataframe) =
      Inr \<lparr>nrows = length lines,
           columns = map (\<lambda>j. (header ! j, map (\<lambda>l. field l j) lines)) [0..<length header]\<rparr>"
    by (simp add: ref_read_csv_def)
  then show ?thesis
    by (simp add: load_data_def ref_lib_def fillna_def comp_def fill_field)
qed

text \<open>
  Claim C4. Whatever table the reader parsed, the loader returns it with the same number
  of rows and the same column names, every missing cell replaced by the empty string and
  every other cell as it was. With the reference reader, a file whose header is not empty
  and whose data lines have no more fields than the header is loaded into a table with
  one row per data line; the cell of a line is the text of its field, and the empty
  string where the field is empty or absent.
\<close>

theorem load_data_rows_and_missing_cells:
  "(read_csv L file_path (w_fs w) = Inr df0 \<longrightarrow>
      load_data L file_path w =
        (Inr (fillna [] df0),
         logger DEBUG ''Data loaded and NaNs filled from %s'' [ArgStr file_path] w) \<and>
      nrows (fillna [] df0) = nrows df0 \<and>
      map fst (columns (fillna [] df0)) = map fst (columns df0) \<and>
      (\<forall>j < length (columns df0).
         snd (columns (fillna [] df0) ! j) =
           map (\<lambda>c. if c = Missing then Text [] else c) (snd (columns df0 ! j)))) \<and>
   (fs_files (w_fs w') path = Some (header # lines) \<and> header \<noteq> [] \<and>
    (\<forall>l \<in> set lines. length l \<le> length header) \<longrightarrow>
      (\<exists>df.
         load_data (ref_lib yaml weigh fmt) path w' =
           (Inr df, logger DEBUG ''Data loaded and NaNs filled from %s'' [ArgStr path] w') \<and>
         nrows df = length lines \<and>
         map fst (columns df) = header \<and>
         (\<forall>j < length header. \<forall>i < length lines.
            snd (columns df ! j) ! i =
              Text (if j < length (lines ! i) then lines ! i ! j else []))))"
proof (intro conjI impI allI)
  assume "fs_files (w_fs w') path = Some (header # lines) \<and> header \<noteq> [] \<and>
    (\<forall>l \<in> set lines. length l \<le> length header)"
  then have run: "load_data (ref_lib yaml weigh fmt) path w' =
           (Inr \<lparr>nrows = length lines,
                 columns = map (\<lambda>j. (header ! j,
                     map (\<lambda>l. Text (if j < length l then l ! j else [])) lines))
                   [0..<length header]\<rparr>,
            logger DEBUG ''Data loaded and NaNs filled from %s'' [ArgStr path] w')"
    by (intro ref_load_data) simp_all
  have names: "map (\<lambda>j. header ! j) [0..<length header] = header"
    by (rule map_nth)
  show "\<exists>df.
         load_data (ref_lib yaml weigh fmt) path w' =
           (Inr df, logger DEBUG ''Data loaded and NaNs filled from %s'' [ArgStr path] w') \<and>
         nrows df = length lines \<and>
         map fst (columns df) = header \<and>
         (\<forall>j < length header. \<forall>i < length lines.
            snd (columns df ! j) ! i =
              Text (if j < length (lines ! i) then lines ! i ! j else []))"
    unfolding run by (rule exI, intro conjI, rule refl) (simp_all add: comp_def names)
qed (simp_all add: load_data_def fillna_nrows fillna_names fillna_column)

theorem load_data_rows_and_missing_cells_witness:
  "fst (load_data example_lib ''./data/interim/train_processed.csv'' (world_of fs_example)) =
     Inr \<lparr>nrows = 3,
          columns = [(''text'', [Text ''cat sat'', Text ''dog ran fast'', Text []]),
                     (''target'', [Text ''0'', Text ''1'', Text ''1''])]\<rparr>"
proof -
  let ?p = "''./data/interim/train_processed.csv''"
  have "fs_files (w_fs (world_of fs_example)) ?p =
      Some ([''text'', ''target''] #
            [[''cat sat'', ''0''], [''dog ran fast'', ''1''], [[], ''1'']]) \<and>
    [''text'', ''target''] \<noteq> [] \<and>
    (\<forall>l \<in> set [[''cat sat'', ''0''], [''dog ran fast'', ''1''], [[], ''1'']].
       length l \<le> length [''text'', ''target''])"
    by (simp add: world_of_def fs_example_def)
  with load_data_rows_and_missing_cells [THEN conjunct2, THEN mp, of "world_of fs_example" ?p
      "[''text'', ''target'']" "[[''cat sat'', ''0''], [''dog ran fast'', ''1''], [[], ''1'']]"
      yaml_example count_weigh decimal]
  obtain df where run: "load_data example_lib ?p (world_of fs_example) =
      (Inr df, logger DEBUG ''Data loaded and NaNs filled from %s'' [ArgStr ?p]
         (world_of fs_example))"
    and n: "nrows df = 3"
    unfolding example_lib_def by auto
  have "fst (load_data example_lib ?p (world_of fs_example)) =
     Inr \<lparr>nrows = 3,
          columns = [(''text'', [Text ''cat sat'', Text ''dog ran fast'', Text []]),
                     (''target'', [Text ''0'', Text ''1'', Text ''1''])]\<rparr>"
    by code_simp
  with run n show ?thesis
    by simp
qed

subsection \<open>Writing a table and reading it back\<close>









subsection \<open>The driver\<close>

lemma bind_st_simps:
  "bind_st (Inl e, s) f = (Inl e, s)"
  "bind_st (Inr x, s) f = f x s"
  by (simp_all add: bind_st_def)

text \<open>
  Claim C5. When the parameter file is not found, \<open>load_params\<close> logs the not-found
  error and raises it, and the handler of \<open>main\<close> is all that runs after it: no dataset
  is loaded. When reading the parameter file fails with any other exception than a
  not-found or a parse error, that failure is logged inside \<open>load_params\<close> and does not
  reach the handler of \<open>main\<close>: the driver goes on to the next step with \<open>None\<close> for the
  parameters, and what the handler of \<open>main\<close> logs and prints is the \<open>TypeError\<close> of
  subscripting \<open>None\<close>.
\<close>

theorem main_failure_handling:
  "(load_params_body L ''params.yaml'' (w_fs w) = Inl e \<and> kind_of e = FileNotFoundError \<longrightarrow>
      main L w =
        main_handler e (logger ERROR ''File not found : %s'' [ArgStr ''params.yaml''] w)) \<and>
   (load_params_body L ''params.yaml'' (w_fs w) = Inl e \<and> kind_of e \<noteq> FileNotFoundError \<and>
    kind_of e \<noteq> YAMLError \<longrightarrow>
      main L w =
        main_handler (Exn TypeError ''NoneType object is not subscriptable'')
          (logger ERROR ''Unexpected error : %s'' [ArgExn e] w))"
  by (simp add: main_def main_body_def load_params_def bind_st_simps)

theorem main_failure_handling_witness:
  "w_log (main example_lib (world_of fs_empty)) =
     [(ERROR, ''File not found : %s'', [ArgStr ''params.yaml'']),
      (ERROR, ''Failed to complete the feature engineering process: %s'',
       [ArgExn (Exn FileNotFoundError ''No such file or directory'')])] \<and>
   w_out (main example_lib (world_of fs_empty)) = [''Error: No such file or directory''] \<and>
   w_log (main example_lib (world_of (fs_empty\<lparr>fs_dirs := {''params.yaml''}\<rparr>))) =
     [(ERROR, ''Unexpected error : %s'', [ArgExn (Exn OtherError ''Is a directory'')]),
      (ERROR, ''Failed to complete the feature engineering process: %s'',
       [ArgExn (Exn TypeError ''NoneType object is not subscriptable'')])] \<and>
   w_out (main example_lib (world_of (fs_empty\<lparr>fs_dirs := {''params.yaml''}\<rparr>))) =
     [''Error: NoneType object is not subscriptable'']"
proof -
  let ?w = "world_of (fs_empty\<lparr>fs_dirs := {''params.yaml''}\<rparr>)"
  have absent: "load_params_body example_lib ''params.yaml'' (w_fs (world_of fs_empty)) =
      Inl (Exn FileNotFoundError ''No such file or directory'')"
    by (simp add: load_params_body_def example_lib_def ref_lib_def ref_open_read_def
        world_of_def fs_empty_def)
  have dir: "load_params_body example_lib ''params.yaml'' (w_fs ?w) =
      Inl (Exn OtherError ''Is a directory'')"
    by (simp add: load_params_body_def example_lib_def ref_lib_def ref_open_read_def
        world_of_def fs_empty_def)
  have "main example_lib (world_of fs_empty) =
      main_handler (Exn FileNotFoundError ''No such file or directory'')
        (logger ERROR ''File not found : %s'' [ArgStr ''params.yaml''] (world_of fs_empty))"
    using main_failure_handling [THEN conjunct1, THEN mp, OF conjI, OF absent] by simp
  moreover have "main example_lib ?w =
      main_handler (Exn TypeError ''NoneType object is not subscriptable'')
        (logger ERROR ''Unexpected error : %s'' [ArgExn (Exn OtherError ''Is a directory'')] ?w)"
    using main_failure_handling [THEN conjunct2, THEN mp, OF conjI, OF dir] by simp
  ultimately show ?thesis
    by (simp add: main_handler_def logger_def print_def world_of_def)
qed

subsection \<open>Determinism of the vectorizer stage\<close>





lemma bind_st_pure: "bind_st (m, h) (\<lambda>x h'. (f x, h')) = (bind_exn m f, h)"
  by (simp add: bind_st_def bind_exn_def split: sum.splits)

lemma case_prod_pure:
  "(\<lambda>p h. (case p of (a, b) \<Rightarrow> \<lambda>h'. (f a b, h')) h) = (\<lambda>p h. (case p of (a, b) \<Rightarrow> f a b, h))"
  by (simp add: fun_eq_iff split: prod.splits)

lemma apply_tfidf_st_body_pure:
  "apply_tfidf_st_body (pure_lib L) train_data test_data mf text_col target_col h =
     (apply_tfidf_body L train_data test_data mf text_col target_col, h)"
  unfolding apply_tfidf_st_body_def apply_tfidf_body_def
  by (simp add: pure_lib_def bind_st_pure split_def)

lemma apply_tfidf_st_pure:
  "apply_tfidf_st (pure_lib L) train_data test_data mf text_col target_col (h, w) =
     (fst (apply_tfidf L train_data test_data mf text_col target_col w), h,
      snd (apply_tfidf L train_data test_data mf text_col target_col w))"
  by (simp add: apply_tfidf_st_def apply_tfidf_st_body_pure apply_tfidf_def
      split: sum.splits prod.splits)

lemma seeded_lib_runs_differ:
  "fst (apply_tfidf_st seeded_lib train_example test_example (PyInt 3) ''text'' ''target''
          (0, world_of fs_empty)) \<noteq>
   fst (apply_tfidf_st seeded_lib train_example test_example (PyInt 3) ''text'' ''target''
          (snd (apply_tfidf_st seeded_lib train_example test_example (PyInt 3) ''text''
                  ''target'' (0, world_of fs_empty))))"
  by code_simp



end
